theory Spec2Isabelle
  imports Complex_Main "HOL-Library.Char_ord" "HOL-Library.List_Lexorder"
begin

section \<open>The FruitFrost pricing dashboard (app.py)\<close>

text \<open>
  The dashboard is one Streamlit script, run from top to bottom on every interaction.
  It is modelled as a function from its inputs (the workbook on disk, the cities chosen
  in the sidebar, the two slider values) to the list of elements it has put on the page
  and the way it ended.
  \<open>st.set_page_config\<close> and \<open>st.columns\<close> put nothing on the page and are left out, and
  so is the cache around \<open>load_data\<close>, which does not change what one run computes.

  Numbers read from the workbook are modelled exactly, as rationals: the rounding of
  64-bit floats is not part of the model. The special float values that pandas and numpy
  produce instead of raising (the mean of an empty column, a division by zero) are kept.
  The two sliders are created with integer bounds and return Python integers, so the
  simulator works on \<open>int\<close>.
\<close>

subsection \<open>Numbers\<close>

datatype npfloat = Fin rat | PosInf | NegInf | NaN

text \<open>Division and multiplication of numpy floats: a zero divisor gives an infinity or
  NaN (with a warning), never an exception.\<close>

fun np_div :: "npfloat \<Rightarrow> npfloat \<Rightarrow> npfloat" where
  "np_div (Fin a) (Fin b) =
     (if b \<noteq> 0 then Fin (a / b)
      else if a = 0 then NaN else if 0 < a then PosInf else NegInf)"
| "np_div NaN _ = NaN"
| "np_div _ NaN = NaN"
| "np_div (Fin a) PosInf = Fin 0"
| "np_div (Fin a) NegInf = Fin 0"
| "np_div PosInf (Fin b) = (if 0 \<le> b then PosInf else NegInf)"
| "np_div NegInf (Fin b) = (if 0 \<le> b then NegInf else PosInf)"
| "np_div _ _ = NaN"

fun np_mul :: "npfloat \<Rightarrow> npfloat \<Rightarrow> npfloat" where
  "np_mul (Fin a) (Fin b) = Fin (a * b)"
| "np_mul NaN _ = NaN"
| "np_mul _ NaN = NaN"
| "np_mul (Fin a) PosInf = (if a = 0 then NaN else if 0 < a then PosInf else NegInf)"
| "np_mul (Fin a) NegInf = (if a = 0 then NaN else if 0 < a then NegInf else PosInf)"
| "np_mul PosInf (Fin b) = (if b = 0 then NaN else if 0 < b then PosInf else NegInf)"
| "np_mul NegInf (Fin b) = (if b = 0 then NaN else if 0 < b then NegInf else PosInf)"
| "np_mul PosInf PosInf = PosInf"
| "np_mul NegInf NegInf = PosInf"
| "np_mul PosInf NegInf = NegInf"
| "np_mul NegInf PosInf = NegInf"

text \<open>\<open>Series.sum()\<close> and \<open>Series.mean()\<close>: the sum of an empty column is 0, its mean
  is NaN.\<close>

definition series_sum :: "rat list \<Rightarrow> rat" where
  "series_sum xs = sum_list xs"

definition mean :: "rat list \<Rightarrow> rat" where
  "mean xs = sum_list xs / of_nat (length xs)"

definition series_mean :: "rat list \<Rightarrow> npfloat" where
  "series_mean xs = (if xs = [] then NaN else Fin (mean xs))"

subsection \<open>Exceptions and the page\<close>

datatype py_error =
    FileNotFoundError
  | ExcelReadError
  | WorksheetNotFound string
  | KeyError string
  | TypeError
  | LinAlgError

record sales_record =
  City :: string
  Month :: string
  Price_per_Unit :: rat
  Units_Sold :: rat
  Revenue :: rat
  Profit :: rat

record competitor_record =
  Competitor_Month :: string
  Competitor_Avg_Price :: rat

record scenario_record =
  Price_Option :: rat
  Scenario_Revenue :: rat
  Scenario_Profit :: rat

record cost_component =
  Component :: string
  Cost_Percentage :: rat

text \<open>A sheet has one of the four column layouts the script reads. Asking a sheet for a
  column of another layout is a \<open>KeyError\<close>.\<close>

datatype sheet =
    SalesSheet "sales_record list"
  | CompetitorSheet "competitor_record list"
  | ScenarioSheet "scenario_record list"
  | CostSheet "cost_component list"

text \<open>What is found at the path \<open>FruitFrost_Pricing_Dashboard_Master.xlsx\<close>: nothing, a
  file that \<open>pd.ExcelFile\<close> cannot open, or a workbook with named sheets.\<close>

datatype source = NoFile | Unreadable | Workbook "(string \<times> sheet) list"

datatype debug_message = SheetsListed "string list" | FileNotFoundMsg

datatype chart =
    TrendChart "(string \<times> npfloat \<times> npfloat) list"
  | ScatterChart "(rat \<times> rat) list"
  | ScenarioChart "scenario_record list"
  | CostPie "cost_component list"
  | CompetitorChart "competitor_record list" npfloat

text \<open>The elements the script puts on the page. A metric carries the number that the
  script formats; labels are given without their currency sign and emoji.\<close>

datatype element =
    Title string
  | Markdown string
  | ErrorBox debug_message
  | SidebarHeader string
  | Multiselect string "string list"
  | Subheader string
  | Metric string npfloat
  | Pyplot chart
  | Caption string
  | Slider string int int int
  | Success string

text \<open>The script ends early through \<open>st.stop()\<close> or through an uncaught exception.\<close>

datatype halt = Stop | Raise py_error

type_synonym 'a script = "element list \<times> (halt + 'a)"

definition render :: "element list \<Rightarrow> unit script" where
  "render es = (es, Inr ())"

definition evaluate :: "py_error + 'a \<Rightarrow> 'a script" where
  "evaluate r = (case r of Inl e \<Rightarrow> ([], Inl (Raise e)) | Inr a \<Rightarrow> ([], Inr a))"

definition then_do :: "'a script \<Rightarrow> ('a \<Rightarrow> 'b script) \<Rightarrow> 'b script" where
  "then_do m f =
     (case m of
        (out, Inl h) \<Rightarrow> (out, Inl h)
      | (out, Inr a) \<Rightarrow> (case f a of (out', r) \<Rightarrow> (out @ out', r)))"

definition finish :: "unit script \<Rightarrow> element list \<times> halt option" where
  "finish m = (case m of (out, Inl h) \<Rightarrow> (out, Some h) | (out, Inr _) \<Rightarrow> (out, None))"

subsection \<open>Loading (lines 20 to 42)\<close>

definition read_excel :: "(string \<times> sheet) list \<Rightarrow> string \<Rightarrow> py_error + sheet" where
  "read_excel sheets sheet_name =
     (case map_of sheets sheet_name of
        None \<Rightarrow> Inl (WorksheetNotFound sheet_name)
      | Some s \<Rightarrow> Inr s)"

text \<open>The sheet names \<open>load_data\<close> asks for, in the order it asks.\<close>

definition required_sheets :: "string list" where
  "required_sheets =
     [''Historical_Sales'', ''Lost_file'', ''Scenario_Simulation'', ''Cost_Structure'']"

text \<open>\<open>load_data\<close>: only \<open>FileNotFoundError\<close> is caught (an error box, then
  \<open>st.stop()\<close>); when the file opens, its sheet names are shown in an error box and the
  four sheets are read, each read raising when the sheet is not there.\<close>

definition load_data :: "source \<Rightarrow> (sheet \<times> sheet \<times> sheet \<times> sheet) script" where
  "load_data src =
     (case src of
        NoFile \<Rightarrow> ([ErrorBox FileNotFoundMsg], Inl Stop)
      | Unreadable \<Rightarrow> ([], Inl (Raise ExcelReadError))
      | Workbook sheets \<Rightarrow>
          then_do (render [ErrorBox (SheetsListed (map fst sheets))]) (\<lambda>_.
          then_do (evaluate (read_excel sheets ''Historical_Sales'')) (\<lambda>historical.
          then_do (evaluate (read_excel sheets ''Lost_file'')) (\<lambda>competitor.
          then_do (evaluate (read_excel sheets ''Scenario_Simulation'')) (\<lambda>scenario.
          then_do (evaluate (read_excel sheets ''Cost_Structure'')) (\<lambda>cost.
          ([], Inr (historical, competitor, scenario, cost))))))))"

definition sales_column :: "sheet \<Rightarrow> string \<Rightarrow> py_error + sales_record list" where
  "sales_column s col = (case s of SalesSheet rows \<Rightarrow> Inr rows | _ \<Rightarrow> Inl (KeyError col))"

definition competitor_column :: "sheet \<Rightarrow> string \<Rightarrow> py_error + competitor_record list" where
  "competitor_column s col =
     (case s of CompetitorSheet rows \<Rightarrow> Inr rows | _ \<Rightarrow> Inl (KeyError col))"

definition scenario_column :: "sheet \<Rightarrow> string \<Rightarrow> py_error + scenario_record list" where
  "scenario_column s col =
     (case s of ScenarioSheet rows \<Rightarrow> Inr rows | _ \<Rightarrow> Inl (KeyError col))"

definition cost_column :: "sheet \<Rightarrow> string \<Rightarrow> py_error + cost_component list" where
  "cost_column s col = (case s of CostSheet rows \<Rightarrow> Inr rows | _ \<Rightarrow> Inl (KeyError col))"

subsection \<open>Filter and key figures (lines 49 to 67)\<close>

text \<open>\<open>Series.unique()\<close>: the distinct values in order of first appearance.\<close>

definition unique :: "'a list \<Rightarrow> 'a list" where
  "unique xs = rev (remdups (rev xs))"

text \<open>Line 55: \<open>historical[historical["City"].isin(city_filter)]\<close>.\<close>

definition filtered_data :: "sales_record list \<Rightarrow> string list \<Rightarrow> sales_record list" where
  "filtered_data historical city_filter =
     filter (\<lambda>r. City r \<in> set city_filter) historical"

definition total_revenue :: "sales_record list \<Rightarrow> rat" where
  "total_revenue fd = series_sum (map Revenue fd)"

definition total_profit :: "sales_record list \<Rightarrow> rat" where
  "total_profit fd = series_sum (map Profit fd)"

definition avg_price :: "sales_record list \<Rightarrow> npfloat" where
  "avg_price fd = series_mean (map Price_per_Unit fd)"

definition total_units_sold :: "sales_record list \<Rightarrow> rat" where
  "total_units_sold fd = series_sum (map Units_Sold fd)"

definition kpi_section :: "sales_record list \<Rightarrow> element list" where
  "kpi_section fd =
     [Subheader ''Executive Summary'',
      Metric ''Total Revenue'' (Fin (total_revenue fd)),
      Metric ''Total Profit'' (Fin (total_profit fd)),
      Metric ''Avg Price'' (avg_price fd),
      Metric ''Total Units Sold'' (Fin (total_units_sold fd))]"

subsection \<open>Trend per month (lines 74 to 76)\<close>

definition month_order :: "string list" where
  "month_order = [''Jan'', ''Feb'', ''Mar'', ''Apr'', ''May'', ''Jun'',
                  ''Jul'', ''Aug'', ''Sep'', ''Oct'', ''Nov'', ''Dec'']"

text \<open>\<open>groupby("Month")[["Revenue", "Profit"]].sum()\<close>: one row per month that occurs,
  keys sorted, with the two sums over the rows of that month.\<close>

definition groupby_month_sum :: "sales_record list \<Rightarrow> (string \<times> rat \<times> rat) list" where
  "groupby_month_sum fd =
     map (\<lambda>m. (m, series_sum (map Revenue (filter (\<lambda>r. Month r = m) fd)),
                   series_sum (map Profit (filter (\<lambda>r. Month r = m) fd))))
         (sort (remdups (map Month fd)))"

text \<open>\<open>reindex(labels)\<close>: one row per label, in the order of the labels; a label with no
  row gets NaN in every column, a row whose key is not a label is dropped.\<close>

definition reindex ::
  "(string \<times> rat \<times> rat) list \<Rightarrow> string list \<Rightarrow> (string \<times> npfloat \<times> npfloat) list" where
  "reindex grouped labels =
     map (\<lambda>l. case map_of grouped l of
                 Some (revenue, profit) \<Rightarrow> (l, Fin revenue, Fin profit)
               | None \<Rightarrow> (l, NaN, NaN))
         labels"

definition trend :: "sales_record list \<Rightarrow> (string \<times> npfloat \<times> npfloat) list" where
  "trend fd = reindex (groupby_month_sum fd) month_order"

subsection \<open>Price elasticity (lines 105 to 110)\<close>

text \<open>The least-squares line of \<open>y\<close> on \<open>x\<close> in closed form, and the sum of squared
  residuals of a line \<open>a * x + b\<close>, which a least-squares fit minimises.\<close>

definition sxx :: "rat list \<Rightarrow> rat" where
  "sxx x = (\<Sum>u\<leftarrow>x. (u - mean x)\<^sup>2)"

definition sxy :: "rat list \<Rightarrow> rat list \<Rightarrow> rat" where
  "sxy x y = (\<Sum>(u, v)\<leftarrow>zip x y. (u - mean x) * (v - mean y))"

definition ols_slope :: "rat list \<Rightarrow> rat list \<Rightarrow> rat" where
  "ols_slope x y = sxy x y / sxx x"

definition ols_intercept :: "rat list \<Rightarrow> rat list \<Rightarrow> rat" where
  "ols_intercept x y = mean y - ols_slope x y * mean x"

definition sse :: "rat \<Rightarrow> rat \<Rightarrow> rat list \<Rightarrow> rat list \<Rightarrow> rat" where
  "sse a b x y = (\<Sum>(u, v)\<leftarrow>zip x y. (v - (a * u + b))\<^sup>2)"

text \<open>
  \<open>np.polyfit(x, y, 1)[0]\<close> is a call into numpy. It raises \<open>TypeError\<close> on an empty
  \<open>x\<close> and on vectors of different lengths. When the fit is determined (at least two
  distinct values in \<open>x\<close>) it returns the least-squares slope. When all values of \<open>x\<close>
  are the same (one observation included) the system is rank deficient: numpy warns and
  returns a value that this repository does not determine; it is the parameter \<open>rd\<close>.
\<close>

type_synonym rank_deficient_fit = "rat list \<Rightarrow> rat list \<Rightarrow> py_error + npfloat"

definition polyfit_slope ::
  "rank_deficient_fit \<Rightarrow> rat list \<Rightarrow> rat list \<Rightarrow> py_error + npfloat" where
  "polyfit_slope rd x y =
     (if x = [] then Inl TypeError
      else if length x \<noteq> length y then Inl TypeError
      else if list_all (\<lambda>v. v = hd x) x then rd x y
      else Inr (Fin (ols_slope x y)))"

text \<open>Line 108: \<open>np.polyfit(price, demand, 1)[0] * (price.mean() / demand.mean())\<close>;
  the fit is evaluated first.\<close>

definition elasticity ::
  "rank_deficient_fit \<Rightarrow> rat list \<Rightarrow> rat list \<Rightarrow> py_error + npfloat" where
  "elasticity rd price demand =
     (case polyfit_slope rd price demand of
        Inl e \<Rightarrow> Inl e
      | Inr slope \<Rightarrow> Inr (np_mul slope (np_div (series_mean price) (series_mean demand))))"

subsection \<open>Revenue optimisation simulator (lines 119 to 140)\<close>

text \<open>The bounds and defaults given to the two \<open>st.slider\<close> calls.\<close>

definition price_min :: int where "price_min = 20"
definition price_max :: int where "price_max = 35"
definition price_default :: int where "price_default = 25"
definition cost_min :: int where "cost_min = 8"
definition cost_max :: int where "cost_max = 18"
definition cost_default :: int where "cost_default = 12"

text \<open>Lines 133 to 135, on the values the two sliders returned.\<close>

definition expected_demand :: "int \<Rightarrow> int" where
  "expected_demand price_slider = 15000 - price_slider * 300"

definition expected_revenue :: "int \<Rightarrow> int" where
  "expected_revenue price_slider = price_slider * expected_demand price_slider"

definition expected_profit :: "int \<Rightarrow> int \<Rightarrow> int" where
  "expected_profit price_slider cost_per_unit =
     (price_slider - cost_per_unit) * expected_demand price_slider"

definition simulator_section :: "int \<Rightarrow> int \<Rightarrow> element list" where
  "simulator_section price_slider cost_per_unit =
     [Subheader ''Revenue Optimisation Simulator'',
      Slider ''Select Price'' price_min price_max price_default,
      Slider ''Cost per Unit'' cost_min cost_max cost_default,
      Metric ''Expected Demand'' (Fin (of_int (expected_demand price_slider))),
      Metric ''Expected Revenue'' (Fin (of_int (expected_revenue price_slider))),
      Metric ''Expected Profit'' (Fin (of_int (expected_profit price_slider cost_per_unit)))]"

subsection \<open>The script\<close>

definition page_header :: "element list" where
  "page_header =
     [Title ''FruitFrost Pricing & Revenue Intelligence Dashboard'',
      Markdown ''AI-driven pricing, demand and revenue optimisation for FruitFrost Ice Cubes'']"

text \<open>
  The whole script, in source order. \<open>city_filter\<close> is what the multiselect returned,
  \<open>price_slider\<close> and \<open>cost_per_unit\<close> what the sliders returned. A chart is an element
  carrying the data it is drawn from; failures inside matplotlib are not modelled.
\<close>

definition app ::
  "rank_deficient_fit \<Rightarrow> source \<Rightarrow> string list \<Rightarrow> int \<Rightarrow> int \<Rightarrow> element list \<times> halt option" where
  "app rd src city_filter price_slider cost_per_unit =
     finish (
       then_do (render page_header) (\<lambda>_.
       then_do (load_data src) (\<lambda>(historical, competitor, scenario, cost).
       then_do (render [SidebarHeader ''Filters'']) (\<lambda>_.
       then_do (evaluate (sales_column historical ''City'')) (\<lambda>rows.
       then_do (render [Multiselect ''Select City'' (unique (map City rows))]) (\<lambda>_.
       let fd = filtered_data rows city_filter;
           price = map Price_per_Unit fd;
           demand = map Units_Sold fd in
       then_do (render (kpi_section fd)) (\<lambda>_.
       then_do (render [Subheader ''Revenue & Profit Trend'',
                        Pyplot (TrendChart (trend fd))]) (\<lambda>_.
       then_do (render [Subheader ''Pricing vs Demand Analysis'',
                        Pyplot (ScatterChart (zip price demand))]) (\<lambda>_.
       then_do (render [Subheader ''Price Elasticity Estimation'']) (\<lambda>_.
       then_do (evaluate (elasticity rd price demand)) (\<lambda>e.
       then_do (render [Metric ''Estimated Price Elasticity'' e,
                        Caption ''Elasticity < -1 indicates price-sensitive demand'']) (\<lambda>_.
       then_do (render (simulator_section price_slider cost_per_unit)) (\<lambda>_.
       then_do (render [Subheader ''Pricing Scenario Analysis'']) (\<lambda>_.
       then_do (evaluate (scenario_column scenario ''Price_Option'')) (\<lambda>scenario_rows.
       then_do (render [Pyplot (ScenarioChart scenario_rows),
                        Subheader ''Cost Structure Breakdown'']) (\<lambda>_.
       then_do (evaluate (cost_column cost ''Cost_Percentage'')) (\<lambda>cost_rows.
       then_do (render [Pyplot (CostPie cost_rows),
                        Subheader ''Competitive Pricing Benchmark'']) (\<lambda>_.
       then_do (evaluate (competitor_column competitor ''Month'')) (\<lambda>competitor_rows.
       render [Pyplot (CompetitorChart competitor_rows (avg_price fd)),
               Success ''Insight: Segment-based pricing outperforms uniform pricing.'']
       )))))))))))))))))))"

subsection \<open>Reading the page\<close>

definition is_metric :: "element \<Rightarrow> bool" where
  "is_metric e = (case e of Metric _ _ \<Rightarrow> True | _ \<Rightarrow> False)"

definition is_chart :: "element \<Rightarrow> bool" where
  "is_chart e = (case e of Pyplot _ \<Rightarrow> True | _ \<Rightarrow> False)"

definition metric_values :: "string \<Rightarrow> element list \<Rightarrow> npfloat list" where
  "metric_values label es =
     concat (map (\<lambda>e. case e of Metric l v \<Rightarrow> (if l = label then [v] else []) | _ \<Rightarrow> []) es)"

definition simulator_view :: "element list \<Rightarrow> npfloat list \<times> npfloat list \<times> npfloat list" where
  "simulator_view es =
     (metric_values ''Expected Demand'' es,
      metric_values ''Expected Revenue'' es,
      metric_values ''Expected Profit'' es)"

definition simulator_rendered :: "element list \<Rightarrow> bool" where
  "simulator_rendered es = (Subheader ''Revenue Optimisation Simulator'' \<in> set es)"

subsection \<open>Concrete inputs\<close>

definition sample_sales :: "sales_record list" where
  "sample_sales =
     [\<lparr>City = ''Pune'', Month = ''Jan'', Price_per_Unit = 20, Units_Sold = 9000,
        Revenue = 180000, Profit = 72000\<rparr>,
      \<lparr>City = ''Pune'', Month = ''Feb'', Price_per_Unit = 25, Units_Sold = 7500,
        Revenue = 187500, Profit = 97500\<rparr>,
      \<lparr>City = ''Delhi'', Month = ''Jan'', Price_per_Unit = 30, Units_Sold = 6000,
        Revenue = 180000, Profit = 108000\<rparr>]"

text \<open>A dataset with a refund row: its Revenue is negative.\<close>

definition refund_sales :: "sales_record list" where
  "refund_sales =
     [\<lparr>City = ''Pune'', Month = ''Jan'', Price_per_Unit = 20, Units_Sold = 10,
        Revenue = 200, Profit = 80\<rparr>,
      \<lparr>City = ''Delhi'', Month = ''Jan'', Price_per_Unit = 20, Units_Sold = 0,
        Revenue = - 50, Profit = - 50\<rparr>]"

definition sample_competitor :: sheet where
  "sample_competitor =
     CompetitorSheet [\<lparr>Competitor_Month = ''Jan'', Competitor_Avg_Price = 24\<rparr>]"

definition sample_scenario :: sheet where
  "sample_scenario =
     ScenarioSheet [\<lparr>Price_Option = 25, Scenario_Revenue = 187500, Scenario_Profit = 97500\<rparr>]"

definition sample_cost :: sheet where
  "sample_cost = CostSheet [\<lparr>Component = ''Fruit'', Cost_Percentage = 100\<rparr>]"

definition sample_workbook :: source where
  "sample_workbook = Workbook
     [(''Historical_Sales'', SalesSheet sample_sales),
      (''Lost_file'', sample_competitor),
      (''Scenario_Simulation'', sample_scenario),
      (''Cost_Structure'', sample_cost)]"

definition refund_workbook :: source where
  "refund_workbook = Workbook
     [(''Cost_Structure'', sample_cost),
      (''Historical_Sales'', SalesSheet refund_sales),
      (''Lost_file'', sample_competitor),
      (''Scenario_Simulation'', sample_scenario)]"

text \<open>A workbook whose competitor sheet has another name than the one the script asks
  for.\<close>

definition misnamed_workbook :: source where
  "misnamed_workbook = Workbook
     [(''Historical_Sales'', SalesSheet sample_sales),
      (''Competitor_Pricing'', sample_competitor),
      (''Scenario_Simulation'', sample_scenario),
      (''Cost_Structure'', sample_cost)]"

text \<open>One instance of the parameter \<open>rd\<close>, to evaluate the model at concrete inputs.\<close>

definition any_fit :: rank_deficient_fit where
  "any_fit x y = Inr (Fin 0)"

section \<open>Properties\<close>

subsection \<open>Least squares\<close>

text \<open>Sums over paired observations, and the normal equations of the fitted line.\<close>

lemma sum_zip_fst: "length x = length y \<Longrightarrow> (\<Sum>(u, v)\<leftarrow>zip x y. f u) = (\<Sum>u\<leftarrow>x. f u)"
  by (induction x y rule: list_induct2) auto

lemma sum_zip_snd: "length x = length y \<Longrightarrow> (\<Sum>(u, v)\<leftarrow>zip x y. f v) = (\<Sum>v\<leftarrow>y. f v)"
  by (induction x y rule: list_induct2) auto

lemma sum_dev_zero: "x \<noteq> [] \<Longrightarrow> (\<Sum>u\<leftarrow>x. u - mean x) = 0"
  by (simp add: sum_list_subtractf mean_def sum_list_triv)

lemma sxx_nonneg: "0 \<le> sxx x"
  unfolding sxx_def by (rule sum_list_nonneg) auto

lemma sxx_zero_iff: "sxx x = 0 \<longleftrightarrow> (\<forall>u\<in>set x. u = mean x)"
  unfolding sxx_def
  by (subst sum_list_nonneg_eq_0_iff) auto

lemma all_eq_hd_mean: "x \<noteq> [] \<Longrightarrow> list_all (\<lambda>v. v = hd x) x \<Longrightarrow> mean x = hd x"
proof -
  assume ne: "x \<noteq> []" and a: "list_all (\<lambda>v. v = hd x) x"
  have "map (\<lambda>v. v) x = map (\<lambda>_. hd x) x"
    using a by (intro map_cong) (auto simp: list_all_iff)
  then have "sum_list x = sum_list (map (\<lambda>_. hd x) x)" by simp
  also have "\<dots> = of_nat (length x) * hd x" by (simp add: sum_list_triv)
  finally show ?thesis using ne by (simp add: mean_def)
qed

lemma sxx_zero_iff_hd: "x \<noteq> [] \<Longrightarrow> sxx x = 0 \<longleftrightarrow> list_all (\<lambda>v. v = hd x) x"
proof
  assume ne: "x \<noteq> []" and "sxx x = 0"
  then have *: "\<forall>u\<in>set x. u = mean x" by (simp add: sxx_zero_iff)
  then have "hd x = mean x" using ne by (cases x) auto
  with * show "list_all (\<lambda>v. v = hd x) x" by (simp add: list_all_iff)
next
  assume ne: "x \<noteq> []" and a: "list_all (\<lambda>v. v = hd x) x"
  then have "mean x = hd x" by (rule all_eq_hd_mean)
  with a show "sxx x = 0" by (simp add: sxx_zero_iff list_all_iff)
qed


text \<open>The sum of squared residuals of any line splits into that of the fitted line and
  two squares: the fitted line is the unique minimiser.\<close>

lemma sum_sq_expand:
  "(\<Sum>p\<leftarrow>ps. (E p - d * U p - g)\<^sup>2) =
     (\<Sum>p\<leftarrow>ps. (E p)\<^sup>2) + d\<^sup>2 * (\<Sum>p\<leftarrow>ps. (U p)\<^sup>2) + of_nat (length ps) * g\<^sup>2
     - 2 * d * (\<Sum>p\<leftarrow>ps. E p * U p) - 2 * g * (\<Sum>p\<leftarrow>ps. E p) + 2 * d * g * (\<Sum>p\<leftarrow>ps. U p)"
  for E U :: "'a \<Rightarrow> rat"
  by (induction ps) (simp_all add: algebra_simps power2_eq_square)

lemma sum_resid:
  "length x = length y \<Longrightarrow>
   (\<Sum>(u, v)\<leftarrow>zip x y. v - (a * u + b)) = sum_list y - a * sum_list x - of_nat (length x) * b"
  for a b :: rat
  by (induction x y rule: list_induct2) (simp_all add: algebra_simps)

lemma sum_resid_dev:
  "length x = length y \<Longrightarrow>
   (\<Sum>(u, v)\<leftarrow>zip x y. (v - (a * u + b)) * (u - m)) =
     (\<Sum>(u, v)\<leftarrow>zip x y. (u - m) * (v - k)) - a * (\<Sum>u\<leftarrow>x. (u - m)\<^sup>2)
     + (k - a * m - b) * (\<Sum>u\<leftarrow>x. u - m)"
  for a b m k :: rat
  by (induction x y rule: list_induct2) (simp_all add: algebra_simps power2_eq_square)

lemma sse_split:
  assumes len: "length x = length y" and ne: "x \<noteq> []" and var: "sxx x \<noteq> 0"
  shows "sse a b x y =
           sse (ols_slope x y) (ols_intercept x y) x y
           + (a - ols_slope x y)\<^sup>2 * sxx x
           + of_nat (length x) * (b - ols_intercept x y + (a - ols_slope x y) * mean x)\<^sup>2"
proof -
  define a0 where "a0 = ols_slope x y"
  define b0 where "b0 = ols_intercept x y"
  define d where "d = a - a0"
  define g where "g = b - b0 + d * mean x"
  define E where "E = (\<lambda>p::rat \<times> rat. snd p - (a0 * fst p + b0))"
  define U where "U = (\<lambda>p::rat \<times> rat. fst p - mean x)"
  have n: "of_nat (length x) * mean x = sum_list x" "of_nat (length y) * mean y = sum_list y"
    using ne len by (auto simp: mean_def)
  have b0: "b0 = mean y - a0 * mean x"
    by (simp add: b0_def a0_def ols_intercept_def)
  have a0: "a0 * sxx x = sxy x y"
    using var by (simp add: a0_def ols_slope_def)
  have sU: "(\<Sum>p\<leftarrow>zip x y. U p) = 0"
  proof -
    have "(\<Sum>p\<leftarrow>zip x y. U p) = (\<Sum>(u, v)\<leftarrow>zip x y. u - mean x)"
      by (simp add: U_def case_prod_unfold)
    also have "\<dots> = (\<Sum>u\<leftarrow>x. u - mean x)" using len by (rule sum_zip_fst)
    also have "\<dots> = 0" using ne by (rule sum_dev_zero)
    finally show ?thesis .
  qed
  have sU2: "(\<Sum>p\<leftarrow>zip x y. (U p)\<^sup>2) = sxx x"
  proof -
    have "(\<Sum>p\<leftarrow>zip x y. (U p)\<^sup>2) = (\<Sum>(u, v)\<leftarrow>zip x y. (u - mean x)\<^sup>2)"
      by (simp add: U_def case_prod_unfold)
    also have "\<dots> = (\<Sum>u\<leftarrow>x. (u - mean x)\<^sup>2)" using len by (rule sum_zip_fst)
    finally show ?thesis by (simp add: sxx_def)
  qed
  have sE: "(\<Sum>p\<leftarrow>zip x y. E p) = 0"
  proof -
    have "(\<Sum>p\<leftarrow>zip x y. E p) = (\<Sum>(u, v)\<leftarrow>zip x y. v - (a0 * u + b0))"
      by (simp add: E_def case_prod_unfold)
    also have "\<dots> = sum_list y - a0 * sum_list x - of_nat (length x) * b0"
      using len by (rule sum_resid)
    also have "\<dots> = 0"
      using n len by (simp add: b0 algebra_simps)
    finally show ?thesis .
  qed
  have sEU: "(\<Sum>p\<leftarrow>zip x y. E p * U p) = 0"
  proof -
    have "(\<Sum>p\<leftarrow>zip x y. E p * U p) = (\<Sum>(u, v)\<leftarrow>zip x y. (v - (a0 * u + b0)) * (u - mean x))"
      by (simp add: E_def U_def case_prod_unfold)
    also have "\<dots> = (\<Sum>(u, v)\<leftarrow>zip x y. (u - mean x) * (v - mean y)) - a0 * (\<Sum>u\<leftarrow>x. (u - mean x)\<^sup>2)
        + (mean y - a0 * mean x - b0) * (\<Sum>u\<leftarrow>x. u - mean x)"
      using len by (rule sum_resid_dev)
    also have "\<dots> = sxy x y - a0 * sxx x"
      by (simp add: b0 sxy_def sxx_def)
    also have "\<dots> = 0" using a0 by simp
    finally show ?thesis .
  qed
  have sE2: "(\<Sum>p\<leftarrow>zip x y. (E p)\<^sup>2) = sse a0 b0 x y"
    by (simp add: sse_def E_def case_prod_unfold)
  have "sse a b x y = (\<Sum>p\<leftarrow>zip x y. (E p - d * U p - g)\<^sup>2)"
  proof -
    have "\<And>p. (snd p - (a * fst p + b)) = E p - d * U p - g"
      by (simp add: E_def U_def d_def g_def algebra_simps)
    then show ?thesis by (simp add: sse_def case_prod_unfold)
  qed
  also have "\<dots> = sse a0 b0 x y + d\<^sup>2 * sxx x + of_nat (length (zip x y)) * g\<^sup>2"
    by (simp add: sum_sq_expand sU sU2 sE sEU sE2)
  finally show ?thesis
    using len by (simp add: a0_def b0_def d_def g_def mult.commute)
qed

lemma sxx_pos: "x \<noteq> [] \<Longrightarrow> \<not> list_all (\<lambda>v. v = hd x) x \<Longrightarrow> 0 < sxx x"
  using sxx_nonneg [of x] sxx_zero_iff_hd [of x] by (simp add: less_le)

lemma ols_minimal:
  assumes len: "length x = length y" and ne: "x \<noteq> []" and var: "\<not> list_all (\<lambda>v. v = hd x) x"
  shows "sse (ols_slope x y) (ols_intercept x y) x y \<le> sse a b x y"
proof -
  have p: "0 < sxx x" using ne var by (rule sxx_pos)
  then have "sxx x \<noteq> 0" by simp
  from sse_split [OF len ne this, of a b] show ?thesis
    using p by (simp add: zero_le_mult_iff)
qed

lemma ols_unique:
  assumes len: "length x = length y" and ne: "x \<noteq> []" and var: "\<not> list_all (\<lambda>v. v = hd x) x"
    and le: "sse a b x y \<le> sse (ols_slope x y) (ols_intercept x y) x y"
  shows "a = ols_slope x y \<and> b = ols_intercept x y"
proof -
  have p: "0 < sxx x" using ne var by (rule sxx_pos)
  then have nz: "sxx x \<noteq> 0" by simp
  define d where "d = a - ols_slope x y"
  define g where "g = b - ols_intercept x y + d * mean x"
  have n: "0 < (of_nat (length x) :: rat)" using ne by simp
  have "d\<^sup>2 * sxx x + of_nat (length x) * g\<^sup>2 \<le> 0"
    using sse_split [OF len ne nz, of a b] le by (simp add: d_def g_def)
  moreover have "0 \<le> d\<^sup>2 * sxx x" using p by simp
  moreover have "0 \<le> of_nat (length x) * g\<^sup>2" by simp
  ultimately have "d\<^sup>2 * sxx x = 0" "of_nat (length x) * g\<^sup>2 = 0" by linarith+
  then have "d = 0" "g = 0" using p n by auto
  then show ?thesis by (simp add: d_def g_def)
qed



subsection \<open>Elasticity estimator\<close>

lemma short_all_equal: "x \<noteq> [] \<Longrightarrow> length x < 2 \<Longrightarrow> list_all (\<lambda>v. v = hd x) x"
  by (cases x) auto

lemma elasticity_full_rank:
  assumes "length price = length demand" and "price \<noteq> []"
    and "\<not> list_all (\<lambda>v. v = hd price) price" and "mean demand \<noteq> 0"
  shows "elasticity rd price demand = Inr (Fin (ols_slope price demand * (mean price / mean demand)))"
proof -
  have "demand \<noteq> []" using assms(1,2) by auto
  then show ?thesis
    using assms by (simp add: elasticity_def polyfit_slope_def series_mean_def)
qed

text \<open>
  C1, as amended. For price and demand observations of equal length, at least two of
  them, prices not all the same and mean demand not zero, the estimator returns
  slope * (mean price / mean demand), where slope and its intercept are the one line
  that minimises the sum of squared residuals of demand predicted from price. For
  price = [20, 25, 30] and demand = [9000, 7500, 6000] the slope is -300 and the
  estimator returns -1.
\<close>

theorem elasticity_is_scaled_ols_slope:
  "(length price = length demand \<and> 2 \<le> length price
      \<and> \<not> list_all (\<lambda>v. v = hd price) price \<and> mean demand \<noteq> 0 \<longrightarrow>
        elasticity rd price demand =
          Inr (Fin (ols_slope price demand * (mean price / mean demand)))
      \<and> (\<forall>a b. sse (ols_slope price demand) (ols_intercept price demand) price demand
                  \<le> sse a b price demand)
      \<and> (\<forall>a b. sse a b price demand
                  \<le> sse (ols_slope price demand) (ols_intercept price demand) price demand
                \<longrightarrow> a = ols_slope price demand \<and> b = ols_intercept price demand))
   \<and> elasticity rd [20, 25, 30] [9000, 7500, 6000] = Inr (Fin (- 1))"
proof (intro conjI impI allI)
  assume h: "length price = length demand \<and> 2 \<le> length price
      \<and> \<not> list_all (\<lambda>v. v = hd price) price \<and> mean demand \<noteq> 0"
  then have ne: "price \<noteq> []" by auto
  show "elasticity rd price demand =
          Inr (Fin (ols_slope price demand * (mean price / mean demand)))"
    using h ne by (intro elasticity_full_rank) auto
  show "sse (ols_slope price demand) (ols_intercept price demand) price demand
          \<le> sse a b price demand" for a b
    using h ne by (intro ols_minimal) auto
  show "a = ols_slope price demand" "b = ols_intercept price demand"
    if "sse a b price demand
          \<le> sse (ols_slope price demand) (ols_intercept price demand) price demand" for a b
    using ols_unique [of price demand a b] h ne that by auto
next
  show "elasticity rd [20, 25, 30] [9000, 7500, 6000] = Inr (Fin (- 1))"
    by (simp add: elasticity_def polyfit_slope_def ols_slope_def sxy_def sxx_def mean_def
        series_mean_def power2_eq_square)
qed

theorem elasticity_is_scaled_ols_slope_witness:
  "length [10, 20, 30 :: rat] = length [50, 40, 60 :: rat] \<and> 2 \<le> length [10, 20, 30 :: rat]
   \<and> \<not> list_all (\<lambda>v. v = hd [10, 20, 30 :: rat]) [10, 20, 30] \<and> mean [50, 40, 60] \<noteq> 0
   \<and> elasticity any_fit [10, 20, 30] [50, 40, 60] = Inr (Fin (1 / 5))
   \<and> sse (1 / 2) 40 [10, 20, 30] [50, 40, 60] \<le> sse 0 50 [10, 20, 30] [50, 40, 60]"
proof -
  have s: "ols_slope [10, 20, 30] [50, 40, 60] = 1 / 2"
    by (simp add: ols_slope_def sxy_def sxx_def mean_def power2_eq_square)
  have i: "ols_intercept [10, 20, 30] [50, 40, 60] = 40"
    by (simp add: ols_intercept_def s) (simp add: mean_def)
  have m: "mean [10, 20, 30] = 20" "mean [50, 40, 60] = 50"
    by (simp_all add: mean_def)
  show ?thesis
    using elasticity_is_scaled_ols_slope [where price = "[10, 20, 30]" and demand = "[50, 40, 60]"
        and rd = any_fit]
    by (simp add: s i m)
qed

text \<open>The value -2 stated for price = [20, 25, 30], demand = [9000, 7500, 6000] is not
  what the estimator returns.\<close>

theorem elasticity_example_counterexample:
  "elasticity any_fit [20, 25, 30] [9000, 7500, 6000] = Inr (Fin (- 1))
   \<and> elasticity any_fit [20, 25, 30] [9000, 7500, 6000] \<noteq> Inr (Fin (- 2))"
  by (simp add: elasticity_def polyfit_slope_def ols_slope_def sxy_def sxx_def mean_def
      series_mean_def power2_eq_square)

text \<open>
  C3, as amended. The estimator has no guard and no "insufficient data" report. With no
  observations it raises TypeError, which ends the script. With one observation, or with
  prices that are all the same, it returns, unchecked, what the rank-deficient fit of the
  library gives, multiplied by mean price / mean demand.
\<close>

theorem elasticity_degenerate_inputs:
  "(price = [] \<longrightarrow> elasticity rd price demand = Inl TypeError)
   \<and> (price \<noteq> [] \<and> length price = length demand
        \<and> (length price < 2 \<or> list_all (\<lambda>v. v = hd price) price) \<longrightarrow>
      elasticity rd price demand =
        (case rd price demand of
           Inl e \<Rightarrow> Inl e
         | Inr slope \<Rightarrow> Inr (np_mul slope (np_div (Fin (mean price)) (Fin (mean demand))))))"
proof (intro conjI impI)
  assume "price = []"
  then show "elasticity rd price demand = Inl TypeError"
    by (simp add: elasticity_def polyfit_slope_def)
next
  assume h: "price \<noteq> [] \<and> length price = length demand
        \<and> (length price < 2 \<or> list_all (\<lambda>v. v = hd price) price)"
  then have a: "list_all (\<lambda>v. v = hd price) price"
    using short_all_equal [of price] by auto
  have "demand \<noteq> []" using h by auto
  then show "elasticity rd price demand =
        (case rd price demand of
           Inl e \<Rightarrow> Inl e
         | Inr slope \<Rightarrow> Inr (np_mul slope (np_div (Fin (mean price)) (Fin (mean demand)))))"
    using h a by (simp add: elasticity_def polyfit_slope_def series_mean_def split: sum.splits)
qed

theorem elasticity_degenerate_inputs_witness:
  "elasticity any_fit [] [] = Inl TypeError
   \<and> elasticity any_fit [25] [7500] = Inr (Fin 0)
   \<and> elasticity any_fit [25, 25] [7500, 6000] = Inr (Fin 0)"
  using elasticity_degenerate_inputs [where price = "[]" and demand = "[]" and rd = any_fit]
    elasticity_degenerate_inputs [where price = "[25]" and demand = "[7500]" and rd = any_fit]
    elasticity_degenerate_inputs [where price = "[25, 25]" and demand = "[7500, 6000]" and rd = any_fit]
  by (simp add: any_fit_def mean_def)

text \<open>With no city selected there are no observations, and the estimator raises.\<close>

theorem elasticity_no_observations_counterexample:
  "elasticity any_fit (map Price_per_Unit (filtered_data sample_sales []))
     (map Units_Sold (filtered_data sample_sales [])) = Inl TypeError"
  by (simp add: elasticity_def polyfit_slope_def filtered_data_def)

subsection \<open>Aggregation\<close>

lemma map_of_grouped:
  "map_of (map (\<lambda>k. (k, f k)) ks) m = (if m \<in> set ks then Some (f m) else None)"
  by (induction ks) auto

text \<open>
  C7. The trend has one row per calendar month, in the fixed order Jan to Dec. The row of
  a month that occurs in the filtered data holds the sums of Revenue and of Profit over
  the rows of that month; the row of a month that does not occur holds NaN in both
  columns, and NaN is not zero.
\<close>

theorem trend_by_month:
  "trend fd =
     map (\<lambda>m. if m \<in> Month ` set fd
                then (m, Fin (\<Sum>r\<leftarrow>filter (\<lambda>r. Month r = m) fd. Revenue r),
                         Fin (\<Sum>r\<leftarrow>filter (\<lambda>r. Month r = m) fd. Profit r))
                else (m, NaN, NaN))
         month_order
   \<and> map fst (trend fd) =
       [''Jan'', ''Feb'', ''Mar'', ''Apr'', ''May'', ''Jun'',
        ''Jul'', ''Aug'', ''Sep'', ''Oct'', ''Nov'', ''Dec'']
   \<and> NaN \<noteq> Fin 0"
proof -
  have a: "trend fd =
     map (\<lambda>m. if m \<in> Month ` set fd
                then (m, Fin (\<Sum>r\<leftarrow>filter (\<lambda>r. Month r = m) fd. Revenue r),
                         Fin (\<Sum>r\<leftarrow>filter (\<lambda>r. Month r = m) fd. Profit r))
                else (m, NaN, NaN))
         month_order"
    by (simp add: trend_def reindex_def groupby_month_sum_def map_of_grouped series_sum_def)
  have b: "map fst (trend fd) = month_order"
    unfolding a by (simp add: comp_def if_distrib [of fst] cong: if_cong)
  show ?thesis using a b by (simp add: month_order_def)
qed

theorem trend_by_month_witness:
  "trend (filtered_data sample_sales [''Pune'']) =
     [(''Jan'', Fin 180000, Fin 72000), (''Feb'', Fin 187500, Fin 97500),
      (''Mar'', NaN, NaN), (''Apr'', NaN, NaN), (''May'', NaN, NaN), (''Jun'', NaN, NaN),
      (''Jul'', NaN, NaN), (''Aug'', NaN, NaN), (''Sep'', NaN, NaN), (''Oct'', NaN, NaN),
      (''Nov'', NaN, NaN), (''Dec'', NaN, NaN)]"
  using trend_by_month [of "filtered_data sample_sales [''Pune'']"]
  by (simp add: filtered_data_def sample_sales_def month_order_def)

lemma total_revenue_filter:
  "total_revenue (filtered_data h S) = (\<Sum>r\<leftarrow>h. if City r \<in> set S then Revenue r else 0)"
  by (induction h) (simp_all add: total_revenue_def filtered_data_def series_sum_def)

text \<open>
  C5, as amended. For every city selection the total revenue is the sum of the Revenue
  values of exactly the rows whose City is selected. For selections S1 and S2 with S1
  contained in S2, the total for S1 is at most the total for S2 provided no row with a
  city in S2 but not in S1 has a negative Revenue.
\<close>

theorem total_revenue_subset:
  "total_revenue (filtered_data h S) = (\<Sum>r\<leftarrow>filter (\<lambda>r. City r \<in> set S) h. Revenue r)
   \<and> (set S1 \<subseteq> set S2
        \<and> (\<forall>r\<in>set h. City r \<in> set S2 \<and> City r \<notin> set S1 \<longrightarrow> 0 \<le> Revenue r) \<longrightarrow>
      total_revenue (filtered_data h S1) \<le> total_revenue (filtered_data h S2))"
proof (intro conjI impI)
  show "total_revenue (filtered_data h S) = (\<Sum>r\<leftarrow>filter (\<lambda>r. City r \<in> set S) h. Revenue r)"
    by (simp add: total_revenue_def filtered_data_def series_sum_def)
next
  assume "set S1 \<subseteq> set S2
        \<and> (\<forall>r\<in>set h. City r \<in> set S2 \<and> City r \<notin> set S1 \<longrightarrow> 0 \<le> Revenue r)"
  then show "total_revenue (filtered_data h S1) \<le> total_revenue (filtered_data h S2)"
    unfolding total_revenue_filter by (intro sum_list_mono) auto
qed

theorem total_revenue_subset_witness:
  "set [''Pune''] \<subseteq> set [''Pune'', ''Delhi'']
   \<and> total_revenue (filtered_data sample_sales [''Pune'']) = 367500
   \<and> total_revenue (filtered_data sample_sales [''Pune'', ''Delhi'']) = 547500
   \<and> total_revenue (filtered_data sample_sales [''Pune''])
       \<le> total_revenue (filtered_data sample_sales [''Pune'', ''Delhi''])"
  using total_revenue_subset [where h = sample_sales and ?S1.0 = "[''Pune'']"
      and ?S2.0 = "[''Pune'', ''Delhi'']" and S = "[''Pune'']"]
  by (simp add: sample_sales_def total_revenue_def filtered_data_def series_sum_def)

text \<open>With a refund row (negative Revenue) a larger selection has a smaller total.\<close>

theorem total_revenue_subset_counterexample:
  "set [''Pune''] \<subseteq> set [''Pune'', ''Delhi'']
   \<and> total_revenue (filtered_data refund_sales [''Pune'']) = 200
   \<and> total_revenue (filtered_data refund_sales [''Pune'', ''Delhi'']) = 150
   \<and> \<not> total_revenue (filtered_data refund_sales [''Pune''])
         \<le> total_revenue (filtered_data refund_sales [''Pune'', ''Delhi''])"
  by (simp add: refund_sales_def total_revenue_def filtered_data_def series_sum_def)

subsection \<open>Simulator\<close>

text \<open>
  C2. The simulator depends on the two slider values only. For every price in
  [20, 35] and every cost per unit in [8, 18], the expected demand is
  15000 - price * 300, the expected revenue is price times that demand and the expected
  profit is (price - cost) times that demand; at price 25 and cost 12 these are 7500,
  187500 and 97500.
\<close>

theorem simulator_outputs:
  "(price_min \<le> p \<and> p \<le> price_max \<and> cost_min \<le> c \<and> c \<le> cost_max \<longrightarrow>
      expected_demand p = 15000 - p * 300
    \<and> expected_revenue p = p * (15000 - p * 300)
    \<and> expected_profit p c = (p - c) * (15000 - p * 300))
   \<and> expected_demand 25 = 7500
   \<and> expected_revenue 25 = 187500
   \<and> expected_profit 25 12 = 97500"
  by (simp add: expected_demand_def expected_revenue_def expected_profit_def)

theorem simulator_outputs_witness:
  "price_min \<le> 20 \<and> 20 \<le> price_max \<and> cost_min \<le> 18 \<and> 18 \<le> cost_max
   \<and> expected_demand 20 = 9000
   \<and> expected_revenue 20 = 180000
   \<and> expected_profit 20 18 = 18000"
  using simulator_outputs [of 20 18]
  by (simp add: price_min_def price_max_def cost_min_def cost_max_def)

text \<open>
  C6. For every price in the slider range [20, 35] the expected demand is not negative:
  it is 9000 at price 20 and falls to its least value, 4500, at price 35, so a floor at
  zero is never reached within the bounds.
\<close>

theorem demand_nonnegative_in_range:
  "(price_min \<le> p \<and> p \<le> price_max \<longrightarrow>
      0 \<le> expected_demand p \<and> 4500 \<le> expected_demand p \<and> expected_demand p \<le> 9000)
   \<and> expected_demand price_min = 9000
   \<and> expected_demand price_max = 4500"
  by (simp add: expected_demand_def price_min_def price_max_def)

theorem demand_nonnegative_in_range_witness:
  "price_min \<le> 27 \<and> 27 \<le> price_max
   \<and> 0 \<le> expected_demand 27 \<and> 4500 \<le> expected_demand 27 \<and> expected_demand 27 \<le> 9000"
  using demand_nonnegative_in_range [of 27]
  by (simp add: price_min_def price_max_def)

text \<open>
  C10. For every price and cost per unit, expected revenue minus expected profit is the
  cost per unit times the expected demand.
\<close>

theorem revenue_minus_profit:
  "expected_revenue p - expected_profit p c = c * expected_demand p"
  by (simp add: expected_revenue_def expected_profit_def algebra_simps)

subsection \<open>Loading\<close>

lemmas script_defs = then_do_def render_def evaluate_def finish_def

lemma read_excel_missing:
  assumes "n \<notin> fst ` set sheets"
  shows "read_excel sheets n = Inl (WorksheetNotFound n)"
proof -
  have "map_of sheets n = None" using assms by (simp add: map_of_eq_None_iff)
  then show ?thesis by (simp add: read_excel_def)
qed

lemma load_data_missing_sheet:
  assumes "\<not> set required_sheets \<subseteq> fst ` set sheets"
  shows "\<exists>h. load_data (Workbook sheets) = ([ErrorBox (SheetsListed (map fst sheets))], Inl h)"
proof -
  from assms obtain n where n: "n \<in> set required_sheets" "n \<notin> fst ` set sheets" by auto
  from n(2) have m: "read_excel sheets n = Inl (WorksheetNotFound n)"
    by (rule read_excel_missing)
  from n(1) consider "n = ''Historical_Sales''" | "n = ''Lost_file''"
    | "n = ''Scenario_Simulation''" | "n = ''Cost_Structure''"
    by (auto simp: required_sheets_def)
  then show ?thesis
  proof cases
    case 1 with m show ?thesis by (simp add: load_data_def script_defs)
  next
    case 2 with m show ?thesis by (simp add: load_data_def script_defs split: sum.splits)
  next
    case 3 with m show ?thesis by (simp add: load_data_def script_defs split: sum.splits)
  next
    case 4 with m show ?thesis by (simp add: load_data_def script_defs split: sum.splits)
  qed
qed

lemma load_data_halts:
  assumes "src = NoFile \<or> src = Unreadable
     \<or> (\<exists>sheets. src = Workbook sheets \<and> \<not> set required_sheets \<subseteq> fst ` set sheets)"
  shows "\<exists>out h. load_data src = (out, Inl h)
           \<and> list_all (\<lambda>e. \<not> is_metric e \<and> \<not> is_chart e) out"
  using assms
proof (elim disjE exE conjE)
  assume "src = NoFile"
  then show ?thesis by (simp add: load_data_def is_metric_def is_chart_def)
next
  assume "src = Unreadable"
  then show ?thesis by (simp add: load_data_def)
next
  fix sheets assume s: "src = Workbook sheets" and "\<not> set required_sheets \<subseteq> fst ` set sheets"
  then obtain h where "load_data (Workbook sheets) = ([ErrorBox (SheetsListed (map fst sheets))], Inl h)"
    using load_data_missing_sheet by blast
  with s show ?thesis by (simp add: is_metric_def is_chart_def)
qed

lemma app_load_halt:
  "load_data src = (out, Inl h) \<Longrightarrow> app rd src sel p c = (page_header @ out, Some h)"
  by (simp add: app_def script_defs)

text \<open>
  C9. When the workbook file is missing or cannot be read, or when one of the sheets the
  script asks for is not in the workbook under that name, the script ends at once, by
  \<open>st.stop()\<close> or by the exception: the page holds the title, the tagline and what
  \<open>load_data\<close> itself displayed, nothing after loading is computed, and no metric and
  no chart is on the page.
\<close>

theorem load_failure_halts:
  "src = NoFile \<or> src = Unreadable
     \<or> (\<exists>sheets. src = Workbook sheets \<and> \<not> set required_sheets \<subseteq> fst ` set sheets) \<longrightarrow>
   snd (app rd src sel p c) \<noteq> None
   \<and> fst (app rd src sel p c) = page_header @ fst (load_data src)
   \<and> list_all (\<lambda>e. \<not> is_metric e \<and> \<not> is_chart e) (fst (app rd src sel p c))"
proof
  assume "src = NoFile \<or> src = Unreadable
     \<or> (\<exists>sheets. src = Workbook sheets \<and> \<not> set required_sheets \<subseteq> fst ` set sheets)"
  then obtain out h where l: "load_data src = (out, Inl h)"
    and m: "list_all (\<lambda>e. \<not> is_metric e \<and> \<not> is_chart e) out"
    using load_data_halts by blast
  have "app rd src sel p c = (page_header @ out, Some h)"
    using l by (rule app_load_halt)
  then show "snd (app rd src sel p c) \<noteq> None
   \<and> fst (app rd src sel p c) = page_header @ fst (load_data src)
   \<and> list_all (\<lambda>e. \<not> is_metric e \<and> \<not> is_chart e) (fst (app rd src sel p c))"
    using l m by (simp add: page_header_def is_metric_def is_chart_def)
qed

theorem load_failure_halts_witness:
  "app any_fit NoFile [''Pune''] 25 12 = (page_header @ [ErrorBox FileNotFoundMsg], Some Stop)
   \<and> app any_fit Unreadable [''Pune''] 25 12 = (page_header, Some (Raise ExcelReadError))
   \<and> app any_fit misnamed_workbook [''Pune''] 25 12 =
       (page_header @ [ErrorBox (SheetsListed [''Historical_Sales'', ''Competitor_Pricing'',
                                                ''Scenario_Simulation'', ''Cost_Structure''])],
        Some (Raise (WorksheetNotFound ''Lost_file'')))"
  using load_failure_halts [where src = NoFile and rd = any_fit and sel = "[''Pune'']" and p = 25 and c = 12]
    load_failure_halts [where src = Unreadable and rd = any_fit and sel = "[''Pune'']" and p = 25 and c = 12]
    load_failure_halts [where src = misnamed_workbook and rd = any_fit and sel = "[''Pune'']" and p = 25 and c = 12]
  by (simp add: app_def load_data_def script_defs misnamed_workbook_def read_excel_def)

subsection \<open>The simulator within the script\<close>

lemma simulator_view_app:
  "simulator_view (fst (app rd src sel p c)) =
   (if simulator_rendered (fst (app rd src sel p c))
    then ([Fin (of_int (expected_demand p))], [Fin (of_int (expected_revenue p))],
          [Fin (of_int (expected_profit p c))])
    else ([], [], []))"
  by (simp add: app_def load_data_def script_defs simulator_view_def simulator_rendered_def
       metric_values_def kpi_section_def simulator_section_def page_header_def
       sales_column_def scenario_column_def cost_column_def competitor_column_def Let_def
      split: source.splits sum.splits sheet.splits prod.splits)

lemma completed_renders_simulator:
  "snd (app rd src sel p c) = None \<Longrightarrow> simulator_rendered (fst (app rd src sel p c))"
  by (auto simp: app_def load_data_def script_defs simulator_rendered_def
       kpi_section_def simulator_section_def page_header_def
       sales_column_def scenario_column_def cost_column_def competitor_column_def Let_def
      split: source.splits sum.splits sheet.splits prod.splits)

text \<open>
  C8. The simulator is a function of the two slider values. Any two runs of the script
  with the same price and cost per unit that reach the simulator show the same expected
  demand, revenue and profit, whatever workbook was loaded and whatever cities were
  selected: the values of lines 133 to 135. Every run that reaches the end of the script
  has reached the simulator.
\<close>

theorem simulator_depends_on_sliders_only:
  "(simulator_rendered (fst (app rd1 src1 sel1 p c))
      \<and> simulator_rendered (fst (app rd2 src2 sel2 p c)) \<longrightarrow>
    simulator_view (fst (app rd1 src1 sel1 p c)) = simulator_view (fst (app rd2 src2 sel2 p c))
    \<and> simulator_view (fst (app rd1 src1 sel1 p c)) =
        ([Fin (of_int (expected_demand p))], [Fin (of_int (expected_revenue p))],
         [Fin (of_int (expected_profit p c))]))
   \<and> (snd (app rd1 src1 sel1 p c) = None \<longrightarrow> simulator_rendered (fst (app rd1 src1 sel1 p c)))"
  using simulator_view_app [of rd1 src1 sel1 p c] simulator_view_app [of rd2 src2 sel2 p c]
    completed_renders_simulator [of rd1 src1 sel1 p c]
  by simp

lemma app_sample_all:
  "snd (app any_fit sample_workbook [''Pune'', ''Delhi''] 25 12) = None"
  by (simp add: app_def load_data_def script_defs sample_workbook_def read_excel_def
      sample_sales_def sample_competitor_def sample_scenario_def sample_cost_def
      sales_column_def scenario_column_def cost_column_def competitor_column_def
      filtered_data_def elasticity_def polyfit_slope_def Let_def)

lemma app_refund_pune:
  "snd (app any_fit refund_workbook [''Pune''] 25 12) = None"
  by (simp add: app_def load_data_def script_defs refund_workbook_def read_excel_def
      refund_sales_def sample_competitor_def sample_scenario_def sample_cost_def
      sales_column_def scenario_column_def cost_column_def competitor_column_def
      filtered_data_def elasticity_def polyfit_slope_def any_fit_def Let_def)

theorem simulator_depends_on_sliders_only_witness:
  "simulator_rendered (fst (app any_fit sample_workbook [''Pune'', ''Delhi''] 25 12))
   \<and> simulator_rendered (fst (app any_fit refund_workbook [''Pune''] 25 12))
   \<and> simulator_view (fst (app any_fit sample_workbook [''Pune'', ''Delhi''] 25 12)) =
       ([Fin 7500], [Fin 187500], [Fin 97500])
   \<and> simulator_view (fst (app any_fit refund_workbook [''Pune''] 25 12)) =
       ([Fin 7500], [Fin 187500], [Fin 97500])"
proof -
  have a: "simulator_rendered (fst (app any_fit sample_workbook [''Pune'', ''Delhi''] 25 12))"
    using app_sample_all by (rule completed_renders_simulator)
  have b: "simulator_rendered (fst (app any_fit refund_workbook [''Pune''] 25 12))"
    using app_refund_pune by (rule completed_renders_simulator)
  have t: "simulator_view (fst (app any_fit sample_workbook [''Pune'', ''Delhi''] 25 12)) =
       simulator_view (fst (app any_fit refund_workbook [''Pune''] 25 12))
     \<and> simulator_view (fst (app any_fit sample_workbook [''Pune'', ''Delhi''] 25 12)) =
       ([Fin (of_int (expected_demand 25))], [Fin (of_int (expected_revenue 25))],
        [Fin (of_int (expected_profit 25 12))])"
    using a b simulator_depends_on_sliders_only [where ?rd1.0 = any_fit and ?rd2.0 = any_fit
        and ?src1.0 = sample_workbook and ?src2.0 = refund_workbook
        and ?sel1.0 = "[''Pune'', ''Delhi'']" and ?sel2.0 = "[''Pune'']" and p = 25 and c = 12]
    by blast
  have u: "simulator_view (fst (app any_fit sample_workbook [''Pune'', ''Delhi''] 25 12)) =
       ([Fin 7500], [Fin 187500], [Fin 97500])"
    using t [THEN conjunct2]
    by (simp add: expected_demand_def expected_revenue_def expected_profit_def)
  have v: "simulator_view (fst (app any_fit refund_workbook [''Pune''] 25 12)) =
       ([Fin 7500], [Fin 187500], [Fin 97500])"
    by (rule trans [OF t [THEN conjunct1, symmetric] u])
  show ?thesis using a b u v by blast
qed

subsection \<open>Key figures with no city selected\<close>

text \<open>
  C4, as amended. With no city selected the filtered dataset is empty and the key figures
  are computed without raising: total revenue, total profit and total units sold are 0,
  and the mean price is the float NaN, shown as such; there is no separate "no data"
  state. The script renders them and the two charts that follow, then ends with the
  TypeError of the elasticity fit on empty data.
\<close>

theorem empty_selection_key_figures:
  "filtered_data historical [] = []
   \<and> kpi_section (filtered_data historical []) =
       [Subheader ''Executive Summary'',
        Metric ''Total Revenue'' (Fin 0),
        Metric ''Total Profit'' (Fin 0),
        Metric ''Avg Price'' NaN,
        Metric ''Total Units Sold'' (Fin 0)]
   \<and> (load_data src = (out, Inr (SalesSheet historical, competitor, scenario, cost)) \<longrightarrow>
        app rd src [] p c =
          (page_header @ out
             @ [SidebarHeader ''Filters'', Multiselect ''Select City'' (unique (map City historical))]
             @ kpi_section []
             @ [Subheader ''Revenue & Profit Trend'', Pyplot (TrendChart (trend [])),
                Subheader ''Pricing vs Demand Analysis'', Pyplot (ScatterChart []),
                Subheader ''Price Elasticity Estimation''],
           Some (Raise TypeError)))"
  by (simp add: filtered_data_def kpi_section_def total_revenue_def total_profit_def
      total_units_sold_def avg_price_def series_sum_def series_mean_def
      app_def script_defs sales_column_def elasticity_def polyfit_slope_def)

theorem empty_selection_key_figures_witness:
  "load_data sample_workbook =
     ([ErrorBox (SheetsListed required_sheets)],
      Inr (SalesSheet sample_sales, sample_competitor, sample_scenario, sample_cost))
   \<and> snd (app any_fit sample_workbook [] 25 12) = Some (Raise TypeError)
   \<and> Metric ''Avg Price'' NaN \<in> set (fst (app any_fit sample_workbook [] 25 12))
   \<and> Metric ''Total Revenue'' (Fin 0) \<in> set (fst (app any_fit sample_workbook [] 25 12))"
proof -
  have l: "load_data sample_workbook =
     ([ErrorBox (SheetsListed required_sheets)],
      Inr (SalesSheet sample_sales, sample_competitor, sample_scenario, sample_cost))"
    by (simp add: load_data_def script_defs sample_workbook_def read_excel_def required_sheets_def)
  show ?thesis
    using l empty_selection_key_figures [where src = sample_workbook and historical = sample_sales
        and competitor = sample_competitor and scenario = sample_scenario and cost = sample_cost
        and out = "[ErrorBox (SheetsListed required_sheets)]" and rd = any_fit and p = 25 and c = 12]
    by (simp add: kpi_section_def total_revenue_def total_profit_def
      total_units_sold_def avg_price_def series_sum_def series_mean_def)
qed

text \<open>The mean price shown for an empty selection is NaN.\<close>

theorem empty_selection_mean_counterexample:
  "avg_price (filtered_data sample_sales []) = NaN
   \<and> Metric ''Avg Price'' NaN \<in> set (kpi_section (filtered_data sample_sales []))"
  by (simp add: filtered_data_def kpi_section_def avg_price_def series_mean_def)

end
